theory Spec2Isabelle
  imports Complex_Main
begin

section \<open>Exceptions\<close>

text \<open>
  The script \<^verbatim>\<open>jai.py\<close> is straight-line top-level code around calls into libraries.
  Every call that can raise is modelled with a result in \<open>exn + 'a\<close>; \<open>Inl\<close> is the
  raised exception.
\<close>

datatype exn = KeyError string | ValueError | IndexError | OtherError string

definition and_then :: "exn + 'a \<Rightarrow> ('a \<Rightarrow> exn + 'b) \<Rightarrow> exn + 'b" where
  "and_then r k = (case r of Inl e \<Rightarrow> Inl e | Inr x \<Rightarrow> k x)"

text \<open>Python's \<^verbatim>\<open>xs[0]\<close>: IndexError on an empty sequence.\<close>

definition first :: "'a list \<Rightarrow> exn + 'a" where
  "first xs = (case xs of [] \<Rightarrow> Inl IndexError | x # _ \<Rightarrow> Inr x)"

text \<open>Python's \<^verbatim>\<open>d[key]\<close> on a dict: KeyError on a missing key.\<close>

definition getitem :: "(string \<rightharpoonup> 'v) \<Rightarrow> string \<Rightarrow> exn + 'v" where
  "getitem d k = (case d k of None \<Rightarrow> Inl (KeyError k) | Some v \<Rightarrow> Inr v)"


section \<open>Categorical encoders\<close>

text \<open>
  Modelled from the spec: the encoder objects are unpickled from \<^verbatim>\<open>encoders.pkl\<close>; the
  class they are instances of is library code, not part of the repository. The spec's data model describes a
  CategoricalEncoder as a fixed, ordered vocabulary mapping each known category string
  to an integer code and back, where a value outside the vocabulary cannot be encoded
  (a hard error, not a default). The script uses three members of it:
  \<^verbatim>\<open>classes_\<close> (the vocabulary), \<^verbatim>\<open>transform\<close> and \<^verbatim>\<open>inverse_transform\<close>, both on
  sequences. The code of a value is its position in the vocabulary.
\<close>

record encoder =
  classes :: "string list"

fun index_of :: "string list \<Rightarrow> string \<Rightarrow> nat option" where
  "index_of [] v = None"
| "index_of (c # cs) v =
     (if c = v then Some 0
      else case index_of cs v of None \<Rightarrow> None | Some i \<Rightarrow> Some (Suc i))"

fun transform :: "encoder \<Rightarrow> string list \<Rightarrow> exn + int list" where
  "transform enc [] = Inr []"
| "transform enc (v # vs) =
     (case index_of (classes enc) v of
        None \<Rightarrow> Inl ValueError
      | Some i \<Rightarrow> and_then (transform enc vs) (\<lambda>cs. Inr (int i # cs)))"

fun inverse_transform :: "encoder \<Rightarrow> int list \<Rightarrow> exn + string list" where
  "inverse_transform enc [] = Inr []"
| "inverse_transform enc (y # ys) =
     (if 0 \<le> y \<and> y < int (length (classes enc))
      then and_then (inverse_transform enc ys) (\<lambda>vs. Inr (classes enc ! nat y # vs))
      else Inl ValueError)"

text \<open>
  The two shapes in which the script calls an encoder:
  \<^verbatim>\<open>enc.transform([v])[0]\<close> (lines 126-128) and
  \<^verbatim>\<open>enc.inverse_transform([c])[0]\<close> (line 145).
\<close>

definition encode :: "encoder \<Rightarrow> string \<Rightarrow> exn + int" where
  "encode enc v = and_then (transform enc [v]) first"

definition decode :: "encoder \<Rightarrow> int \<Rightarrow> exn + string" where
  "decode enc c = and_then (inverse_transform enc [c]) first"


section \<open>The classifier and the numeric library\<close>

text \<open>
  The classifier is unpickled from \<^verbatim>\<open>salary_model.pkl\<close>; the script calls
  \<^verbatim>\<open>model.predict(features)\<close> and, when \<^verbatim>\<open>hasattr(model, "predict_proba")\<close>,
  \<^verbatim>\<open>model.predict_proba(features)\<close>. Both are parameters of the model: functions of the
  feature matrix that return an array or raise. A classifier without the attribute has
  \<open>predict_proba = None\<close>.
\<close>

record classifier =
  predict :: "int list list \<Rightarrow> exn + int list"
  predict_proba :: "(int list list \<Rightarrow> exn + real list list) option"

text \<open>
  \<^verbatim>\<open>ndarray.max()\<close> over all entries of a two-dimensional array; it raises on an
  array without entries.
\<close>

definition np_max :: "real list list \<Rightarrow> exn + real" where
  "np_max P = (case concat P of [] \<Rightarrow> Inl ValueError | p # ps \<Rightarrow> Inr (fold max ps p))"

text \<open>
  \<^verbatim>\<open>np.random.uniform(low, high)\<close> returns a number between \<open>low\<close> and \<open>high\<close>; the
  upper end is not excluded, since the library's rounding can reach it. How the library
  computes the number is not modelled. A run's draw is given by its position \<open>t\<close> in the
  range, from 0 (the draw is \<open>low\<close>) to 1 (the draw is \<open>high\<close>), and different runs may
  have different positions. The position is not the generator's internal sample.
\<close>

definition np_random_uniform :: "real \<Rightarrow> real \<Rightarrow> real \<Rightarrow> real" where
  "np_random_uniform low high t = (1 - t) * low + t * high"


section \<open>The form's values and the events of a run\<close>

text \<open>
  The values the widgets of the form return (lines 103-119). The e-mail input's value
  is not bound to a variable in the script; it is kept here as a collected field.
\<close>

record form_values =
  fname :: string
  lname :: string
  email :: string
  experience :: int
  age :: int
  education :: string
  occupation :: string
  country :: string
  hours :: int
  submitted :: bool

text \<open>
  What a run does that can be observed from outside: download calls, files handed to the
  unpickler, calls of the classifier, and what is rendered. \<open>Features\<close> marks line 133,
  where the feature matrix is built. Styling of the rendered panels is left out.
\<close>

datatype event =
    Download string string
  | Load string string
  | StError string exn
  | Features "int list list"
  | PredictCall "int list list"
  | ProbaCall "int list list"
  | Summary string
  | Gauge real
  | Placeholder

text \<open>
  How a block of the script ends: it runs through, it calls \<^verbatim>\<open>st.stop()\<close> after
  showing an error, or an exception leaves it uncaught.
\<close>

datatype status = Completed | Stopped | Raised exn


section \<open>The prediction step (lines 125-145)\<close>

definition encode_field :: "(string \<rightharpoonup> encoder) \<Rightarrow> string \<Rightarrow> string \<Rightarrow> exn + int" where
  "encode_field encoders key v = and_then (getitem encoders key) (\<lambda>enc. encode enc v)"

text \<open>Lines 126-128, the body of the first \<^verbatim>\<open>try\<close>.\<close>

definition encode_fields :: "(string \<rightharpoonup> encoder) \<Rightarrow> form_values \<Rightarrow> exn + int \<times> int \<times> int" where
  "encode_fields encoders f =
     and_then (encode_field encoders ''education'' (education f)) (\<lambda>edu_enc.
     and_then (encode_field encoders ''occupation'' (occupation f)) (\<lambda>occ_enc.
     and_then (encode_field encoders ''native-country'' (country f)) (\<lambda>nat_enc.
       Inr (edu_enc, occ_enc, nat_enc))))"

text \<open>Lines 136-140, the body of the second \<^verbatim>\<open>try\<close>, with the calls it makes.\<close>

definition model_block ::
  "classifier \<Rightarrow> int list list \<Rightarrow> real \<Rightarrow> event list \<times> (exn + int \<times> real)" where
  "model_block model features u =
     (case and_then (predict model features) first of
        Inl e \<Rightarrow> ([PredictCall features], Inl e)
      | Inr prediction \<Rightarrow>
          (case predict_proba model of
             Some proba \<Rightarrow>
               (case and_then (proba features) np_max of
                  Inl e \<Rightarrow> ([PredictCall features, ProbaCall features], Inl e)
                | Inr confidence \<Rightarrow>
                    ([PredictCall features, ProbaCall features], Inr (prediction, confidence)))
           | None \<Rightarrow>
               ([PredictCall features], Inr (prediction, np_random_uniform 0.85 0.97 u))))"

text \<open>
  The three ways the step fails: inside the first \<^verbatim>\<open>try\<close>, inside the second, or at
  line 145, which no \<^verbatim>\<open>try\<close> encloses.
\<close>

datatype failure = EncodingError exn | PredictionError exn | Uncaught exn

definition prediction_step ::
  "classifier \<Rightarrow> (string \<rightharpoonup> encoder) \<Rightarrow> form_values \<Rightarrow> real
     \<Rightarrow> event list \<times> (failure + string \<times> real)" where
  "prediction_step model encoders f u =
     (case encode_fields encoders f of
        Inl e \<Rightarrow> ([], Inl (EncodingError e))
      | Inr (edu_enc, occ_enc, nat_enc) \<Rightarrow>
          (let features = [[edu_enc, occ_enc, nat_enc, hours f]] in
           case model_block model features u of
             (calls, Inl e) \<Rightarrow> (Features features # calls, Inl (PredictionError e))
           | (calls, Inr (prediction, confidence)) \<Rightarrow>
               (case and_then (getitem encoders ''income'') (\<lambda>enc. decode enc prediction) of
                  Inl e \<Rightarrow> (Features features # calls, Inl (Uncaught e))
                | Inr label \<Rightarrow> (Features features # calls, Inr (label, confidence)))))"


section \<open>The right column (lines 123-199)\<close>

definition right_column ::
  "classifier \<Rightarrow> (string \<rightharpoonup> encoder) \<Rightarrow> form_values \<Rightarrow> real \<Rightarrow> event list \<times> status" where
  "right_column model encoders f u =
     (if submitted f \<and> fname f \<noteq> [] \<and> lname f \<noteq> [] then
        (case prediction_step model encoders f u of
           (evs, Inl (EncodingError e)) \<Rightarrow> (evs @ [StError ''Encoding error'' e], Stopped)
         | (evs, Inl (PredictionError e)) \<Rightarrow> (evs @ [StError ''Prediction error'' e], Stopped)
         | (evs, Inl (Uncaught e)) \<Rightarrow> (evs, Raised e)
         | (evs, Inr (label, confidence)) \<Rightarrow>
             (evs @ [Summary label, Gauge (confidence * 100)], Completed))
      else ([Placeholder], Completed))"

fun is_result_panel :: "event \<Rightarrow> bool" where
  "is_result_panel (Summary _) = True"
| "is_result_panel (Gauge _) = True"
| "is_result_panel _ = False"

fun is_pipeline_event :: "event \<Rightarrow> bool" where
  "is_pipeline_event (Features _) = True"
| "is_pipeline_event (PredictCall _) = True"
| "is_pipeline_event (ProbaCall _) = True"
| "is_pipeline_event e = is_result_panel e"

fun features_built :: "event list \<Rightarrow> int list list list" where
  "features_built [] = []"
| "features_built (Features X # evs) = X # features_built evs"
| "features_built (_ # evs) = features_built evs"

fun labels_shown :: "event list \<Rightarrow> string list" where
  "labels_shown [] = []"
| "labels_shown (Summary l # evs) = l # labels_shown evs"
| "labels_shown (_ # evs) = labels_shown evs"


section \<open>The weekly-hours widget (line 117)\<close>

text \<open>
  Modelled from the spec: the slider widget is library code, not part of the repository. The
  spec gives the weekly hours as an integer in 10-80 and says that a value below 10 or
  above 80 is rejected by the input constraints before reaching the adapter. The
  arguments are those of \<^verbatim>\<open>st.slider(label, min_value, max_value, value)\<close>; \<open>chosen\<close> is
  the position the user asks for, \<open>None\<close> when the widget was not touched.
\<close>

definition slider :: "int \<Rightarrow> int \<Rightarrow> int \<Rightarrow> int option \<Rightarrow> exn + int" where
  "slider min_value max_value value chosen =
     (case chosen of
        None \<Rightarrow> Inr value
      | Some v \<Rightarrow> if min_value \<le> v \<and> v \<le> max_value then Inr v else Inl ValueError)"

text \<open>
  The script from the hours slider on: \<open>f\<close> holds what the other widgets returned, the
  slider decides \<open>hours\<close>.
\<close>

definition form_and_results ::
  "classifier \<Rightarrow> (string \<rightharpoonup> encoder) \<Rightarrow> form_values \<Rightarrow> int option \<Rightarrow> real
     \<Rightarrow> event list \<times> status" where
  "form_and_results model encoders f chosen_hours u =
     (case slider 10 80 40 chosen_hours of
        Inl e \<Rightarrow> ([], Raised e)
      | Inr h \<Rightarrow> right_column model encoders (f\<lparr>hours := h\<rparr>) u)"


section \<open>Fetching and loading the artifacts (lines 11-31)\<close>














section \<open>Example artifacts and inputs\<close>

definition example_encoders :: "string \<rightharpoonup> encoder" where
  "example_encoders =
     [''education'' \<mapsto> \<lparr>classes = [''Bachelors'', ''HS-grad'', ''Masters'']\<rparr>,
      ''occupation'' \<mapsto> \<lparr>classes = [''Exec-managerial'', ''Sales'']\<rparr>,
      ''native-country'' \<mapsto> \<lparr>classes = [''India'', ''United-States'']\<rparr>,
      ''income'' \<mapsto> \<lparr>classes = [''<=50K'', ''>50K'']\<rparr>]"

text \<open>
  A classifier that predicts class 1 for more than 40 weekly hours, with and without
  probability estimates.
\<close>

definition example_predict :: "int list list \<Rightarrow> exn + int list" where
  "example_predict X = Inr (map (\<lambda>row. if 40 < last row then 1 else 0) X)"

definition example_model :: classifier where
  "example_model =
     \<lparr>predict = example_predict,
      predict_proba =
        Some (\<lambda>X. Inr (map (\<lambda>row. if 40 < last row then [0.3, 0.7] else [0.8, 0.2]) X))\<rparr>"

definition example_model_plain :: classifier where
  "example_model_plain = \<lparr>predict = example_predict, predict_proba = None\<rparr>"

definition example_form :: form_values where
  "example_form =
     \<lparr>fname = ''Ada'', lname = ''Lovelace'', email = [], experience = 5, age = 35,
      education = ''Bachelors'', occupation = ''Exec-managerial'', country = ''United-States'',
      hours = 45, submitted = True\<rparr>"








section \<open>Properties of the encoders\<close>

lemma index_of_None: "index_of cs v = None \<longleftrightarrow> v \<notin> set cs"
  by (induction cs) (auto split: option.splits)

lemma index_of_Some: "index_of cs v = Some i \<Longrightarrow> i < length cs \<and> cs ! i = v"
  by (induction cs arbitrary: i) (auto split: if_splits option.splits)

lemma index_of_member: "v \<in> set cs \<Longrightarrow> \<exists>i. index_of cs v = Some i"
  using index_of_None [of cs v] by (cases "index_of cs v") auto

lemma transform_unknown:
  "v \<notin> set (classes enc) \<Longrightarrow> transform enc (v # vs) = Inl ValueError"
  using index_of_None [of "classes enc" v] by simp

lemma encode_unknown: "v \<notin> set (classes enc) \<Longrightarrow> encode enc v = Inl ValueError"
  using index_of_None [of "classes enc" v] by (simp add: encode_def and_then_def)

lemma encode_known:
  "index_of (classes enc) v = Some i \<Longrightarrow> encode enc v = Inr (int i)"
  by (simp add: encode_def and_then_def first_def)

lemma encode_Inr:
  "encode enc v = Inr c \<Longrightarrow> \<exists>i. index_of (classes enc) v = Some i \<and> c = int i"
  by (auto simp: encode_def and_then_def first_def split: option.splits)

lemma decode_in_range:
  "i < length (classes enc) \<Longrightarrow> decode enc (int i) = Inr (classes enc ! i)"
  by (simp add: decode_def and_then_def first_def)

lemma transform_roundtrip:
  "set vs \<subseteq> set (classes enc) \<Longrightarrow>
   \<exists>cs. transform enc vs = Inr cs \<and> inverse_transform enc cs = Inr vs"
proof (induction vs)
  case Nil
  show ?case by simp
next
  case (Cons v vs)
  from Cons.prems obtain i where i: "index_of (classes enc) v = Some i"
    using index_of_member by fastforce
  from Cons obtain cs where cs: "transform enc vs = Inr cs" "inverse_transform enc cs = Inr vs"
    by auto
  from i have "i < length (classes enc)" "classes enc ! i = v"
    using index_of_Some by blast+
  with i cs show ?case by (simp add: and_then_def)
qed

text \<open>
  C1. For every value \<open>v\<close> in an encoder's vocabulary, encoding succeeds with some code
  \<open>c\<close>, and decoding \<open>c\<close> yields \<open>v\<close> again:
  \<^verbatim>\<open>inverse_transform(transform([v]))[0] == v\<close>.
\<close>

theorem encode_decode_roundtrip:
  "v \<in> set (classes enc) \<Longrightarrow> \<exists>c. encode enc v = Inr c \<and> decode enc c = Inr v"
proof -
  assume "v \<in> set (classes enc)"
  then obtain i where i: "index_of (classes enc) v = Some i"
    using index_of_member by blast
  then have "i < length (classes enc)" "classes enc ! i = v"
    using index_of_Some by blast+
  with i show ?thesis
    using encode_known [OF i] decode_in_range [of i enc] by simp
qed

theorem encode_decode_roundtrip_witness:
  "''Masters'' \<in> set (classes \<lparr>classes = [''Bachelors'', ''HS-grad'', ''Masters'']\<rparr>)
   \<and> (\<exists>c. encode \<lparr>classes = [''Bachelors'', ''HS-grad'', ''Masters'']\<rparr> ''Masters'' = Inr c
        \<and> decode \<lparr>classes = [''Bachelors'', ''HS-grad'', ''Masters'']\<rparr> c = Inr ''Masters'')"
  using encode_decode_roundtrip
    [of "''Masters''" "\<lparr>classes = [''Bachelors'', ''HS-grad'', ''Masters'']\<rparr>"]
  by simp


section \<open>Properties of the prediction step\<close>

lemma np_max_Max:
  assumes "np_max P = Inr c"
  shows "concat P \<noteq> []" and "c = Max (set (concat P))"
proof -
  from assms obtain p ps where ps: "concat P = p # ps" and c: "c = fold max ps p"
    by (auto simp: np_max_def split: list.splits)
  from ps show "concat P \<noteq> []" by simp
  have "Max (set (p # ps)) = fold max ps p" by (rule Max.set_eq_fold)
  with c ps show "c = Max (set (concat P))" by simp
qed

lemma np_random_uniform_range:
  assumes "0 \<le> u" and "u \<le> 1"
  shows "0.85 \<le> np_random_uniform 0.85 0.97 u" and "np_random_uniform 0.85 0.97 u \<le> 0.97"
proof -
  have "np_random_uniform 0.85 0.97 u = 0.85 + 0.12 * u"
    by (simp add: np_random_uniform_def field_simps)
  with assms show "0.85 \<le> np_random_uniform 0.85 0.97 u"
    and "np_random_uniform 0.85 0.97 u \<le> 0.97"
    by simp_all
qed

lemma model_block_success:
  assumes "model_block model X u = (calls, Inr (prediction, confidence))"
  shows "and_then (predict model X) first = Inr prediction"
    and "predict_proba model = None \<Longrightarrow>
           calls = [PredictCall X] \<and> confidence = np_random_uniform 0.85 0.97 u"
    and "predict_proba model = Some proba \<Longrightarrow>
           calls = [PredictCall X, ProbaCall X] \<and> and_then (proba X) np_max = Inr confidence"
  using assms by (auto simp: model_block_def split: sum.splits option.splits)

lemma model_block_rng:
  "fst (model_block model X u1) = fst (model_block model X u2)"
  "map_sum id fst (snd (model_block model X u1)) = map_sum id fst (snd (model_block model X u2))"
  "predict_proba model \<noteq> None \<Longrightarrow> model_block model X u1 = model_block model X u2"
  by (auto simp: model_block_def split: sum.splits option.splits)

lemma prediction_step_success:
  assumes "prediction_step model encoders f u = (evs, Inr (label, confidence))"
  shows "\<exists>edu_enc occ_enc nat_enc calls prediction.
           encode_fields encoders f = Inr (edu_enc, occ_enc, nat_enc)
         \<and> model_block model [[edu_enc, occ_enc, nat_enc, hours f]] u
             = (calls, Inr (prediction, confidence))
         \<and> and_then (getitem encoders ''income'') (\<lambda>enc. decode enc prediction) = Inr label
         \<and> evs = Features [[edu_enc, occ_enc, nat_enc, hours f]] # calls"
  using assms
  by (auto simp: prediction_step_def Let_def split: sum.splits prod.splits)

lemma encode_fields_Inr:
  "encode_fields encoders f = Inr (a, b, c) \<longleftrightarrow>
     encode_field encoders ''education'' (education f) = Inr a
   \<and> encode_field encoders ''occupation'' (occupation f) = Inr b
   \<and> encode_field encoders ''native-country'' (country f) = Inr c"
  by (auto simp: encode_fields_def and_then_def split: sum.splits)

lemma prediction_step_rng_label:
  "fst (prediction_step model encoders f u1) = fst (prediction_step model encoders f u2)
   \<and> map_sum id fst (snd (prediction_step model encoders f u1))
       = map_sum id fst (snd (prediction_step model encoders f u2))"
proof (cases "encode_fields encoders f")
  case (Inl e)
  then show ?thesis by (simp add: prediction_step_def)
next
  case (Inr t)
  obtain a b c where t: "t = (a, b, c)" by (cases t)
  let ?X = "[[a, b, c, hours f]]"
  obtain calls1 r1 where m1: "model_block model ?X u1 = (calls1, r1)"
    by (cases "model_block model ?X u1")
  obtain calls2 r2 where m2: "model_block model ?X u2 = (calls2, r2)"
    by (cases "model_block model ?X u2")
  from model_block_rng(1,2) [of model ?X u1 u2] m1 m2
  have same: "calls1 = calls2" "map_sum id fst r1 = map_sum id fst r2"
    by simp_all
  from Inr t m1 m2 same show ?thesis
    by (cases r1; cases r2) (auto simp: prediction_step_def Let_def split: sum.splits)
qed

lemma prediction_step_rng_proba:
  assumes "predict_proba model \<noteq> None"
  shows "prediction_step model encoders f u1 = prediction_step model encoders f u2"
proof -
  from assms have "\<And>X. model_block model X u1 = model_block model X u2"
    by (rule model_block_rng(3))
  then show ?thesis
    by (cases "encode_fields encoders f") (auto simp: prediction_step_def)
qed

lemma prediction_step_fields:
  assumes "education f1 = education f2" and "occupation f1 = occupation f2"
    and "country f1 = country f2" and "hours f1 = hours f2"
  shows "prediction_step model encoders f1 u = prediction_step model encoders f2 u"
proof -
  from assms have "encode_fields encoders f1 = encode_fields encoders f2"
    by (simp add: encode_fields_def)
  with assms(4) show ?thesis
    by (cases "encode_fields encoders f2") (auto simp: prediction_step_def)
qed

lemma example_run:
  "prediction_step example_model example_encoders example_form (1 / 2)
     = ([Features [[0, 0, 1, 45]], PredictCall [[0, 0, 1, 45]], ProbaCall [[0, 0, 1, 45]]],
        Inr (''>50K'', 7 / 10))"
  by (simp add: prediction_step_def encode_fields_def encode_field_def getitem_def
      encode_def decode_def and_then_def first_def model_block_def np_max_def Let_def
      example_model_def example_predict_def example_encoders_def example_form_def)

text \<open>
  C2. Whenever the prediction step produces a result, its confidence lies in \<open>[0, 1]\<close>,
  for every assignment of the form's fields: the fallback draws from \<open>[0.85, 0.97]\<close>, and
  the maximum of the entries \<^verbatim>\<open>predict_proba\<close> returns is one of these entries. The
  classifier is a parameter; what it returns from \<^verbatim>\<open>predict_proba\<close> is taken to be
  probabilities, each in \<open>[0, 1]\<close>, and the position \<open>u\<close> of the draw to be in \<open>[0, 1]\<close>.
\<close>

theorem confidence_in_unit_interval:
  assumes step: "prediction_step model encoders f u = (evs, Inr (label, confidence))"
    and u: "0 \<le> u" "u \<le> 1"
    and probabilities:
      "\<And>proba X P p. predict_proba model = Some proba \<Longrightarrow> proba X = Inr P \<Longrightarrow>
         p \<in> set (concat P) \<Longrightarrow> 0 \<le> p \<and> p \<le> 1"
  shows "0 \<le> confidence \<and> confidence \<le> 1"
proof -
  from prediction_step_success [OF step] obtain X calls prediction
    where block: "model_block model X u = (calls, Inr (prediction, confidence))"
    by blast
  show ?thesis
  proof (cases "predict_proba model")
    case None
    with model_block_success(2) [OF block]
    have "confidence = np_random_uniform 0.85 0.97 u" by simp
    with np_random_uniform_range [OF u] show ?thesis by simp
  next
    case (Some proba)
    with model_block_success(3) [OF block]
    have "and_then (proba X) np_max = Inr confidence" by simp
    then obtain P where P: "proba X = Inr P" and m: "np_max P = Inr confidence"
      by (auto simp: and_then_def split: sum.splits)
    from np_max_Max [OF m] have "confidence \<in> set (concat P)"
      using Max_in [of "set (concat P)"] by simp
    with probabilities [OF Some P] show ?thesis .
  qed
qed

theorem confidence_in_unit_interval_witness:
  "prediction_step example_model example_encoders example_form (1 / 2)
     = ([Features [[0, 0, 1, 45]], PredictCall [[0, 0, 1, 45]], ProbaCall [[0, 0, 1, 45]]],
        Inr (''>50K'', 7 / 10))
   \<and> (0::real) \<le> 7 / 10 \<and> (7 / 10 :: real) \<le> 1"
proof -
  have run: "prediction_step example_model example_encoders example_form (1 / 2)
     = ([Features [[0, 0, 1, 45]], PredictCall [[0, 0, 1, 45]], ProbaCall [[0, 0, 1, 45]]],
        Inr (''>50K'', 7 / 10))"
    by (rule example_run)
  have probabilities: "0 \<le> p \<and> p \<le> 1"
    if "predict_proba example_model = Some proba" "proba X = Inr P" "p \<in> set (concat P)"
    for proba X P p
  proof -
    from that(1)
    have "proba = (\<lambda>X. Inr (map (\<lambda>row. if 40 < last row then [0.3, 0.7] else [0.8, 0.2]) X))"
      by (simp add: example_model_def)
    with that(2)
    have "P = map (\<lambda>row. if 40 < last row then [0.3, 0.7] else [0.8, 0.2]) X"
      by simp
    with that(3) show ?thesis by (auto split: if_splits)
  qed
  have "(0::real) \<le> 7 / 10 \<and> (7 / 10 :: real) \<le> 1"
  proof (rule confidence_in_unit_interval [OF run])
    show "(0::real) \<le> 1 / 2" and "(1 / 2 :: real) \<le> 1" by simp_all
  next
    fix proba X P p
    assume "predict_proba example_model = Some proba" "proba X = Inr P" "p \<in> set (concat P)"
    then show "0 \<le> p \<and> p \<le> 1" by (rule probabilities)
  qed
  with run show ?thesis by simp
qed

text \<open>
  C3. For a fixed classifier, fixed encoders and fixed form values, two runs of the
  prediction step, whatever the random generator yields in each (\<open>u1\<close>, \<open>u2\<close>), make the
  same calls and end with the same label or the same failure; when the classifier has
  \<^verbatim>\<open>predict_proba\<close>, the two runs are equal altogether, confidence included. The
  classifier's methods are functions of the feature matrix.
\<close>

theorem prediction_step_deterministic:
  "fst (prediction_step model encoders f u1) = fst (prediction_step model encoders f u2)
   \<and> map_sum id fst (snd (prediction_step model encoders f u1))
       = map_sum id fst (snd (prediction_step model encoders f u2))
   \<and> (predict_proba model \<noteq> None \<longrightarrow>
        prediction_step model encoders f u1 = prediction_step model encoders f u2)"
  using prediction_step_rng_label [of model encoders f u1 u2]
    prediction_step_rng_proba [of model encoders f u1 u2]
  by blast

theorem prediction_step_deterministic_witness:
  "predict_proba example_model \<noteq> None
   \<and> prediction_step example_model example_encoders example_form 0
       = prediction_step example_model example_encoders example_form (1 / 2)
   \<and> map_sum id fst (snd (prediction_step example_model_plain example_encoders example_form 0))
       = map_sum id fst
           (snd (prediction_step example_model_plain example_encoders example_form (1 / 2)))"
  using prediction_step_deterministic [of example_model example_encoders example_form 0 "1 / 2"]
    prediction_step_deterministic
      [of example_model_plain example_encoders example_form 0 "1 / 2"]
  by (simp add: example_model_def)

text \<open>
  C4. For every prediction that is produced: when the classifier has \<^verbatim>\<open>predict_proba\<close>,
  the confidence is the maximum of the probabilities it returns for the feature matrix
  that was built; otherwise it is the value drawn by \<^verbatim>\<open>np.random.uniform(0.85, 0.97)\<close>,
  which lies in the fixed range from 0.85 to 0.97. Both values are produced: once the
  fields are encoded, \<^verbatim>\<open>predict\<close> returns a class and the class has a label, a
  classifier whose \<^verbatim>\<open>predict_proba\<close> returns an array with entries yields that array's
  maximum as the confidence, and a classifier without \<^verbatim>\<open>predict_proba\<close> yields the draw.
\<close>

theorem confidence_source:
  "(prediction_step model encoders f u = (evs, Inr (label, confidence)) \<and> 0 \<le> u \<and> u \<le> 1 \<longrightarrow>
      (case predict_proba model of
         Some proba \<Rightarrow>
           (\<exists>X P. features_built evs = [X] \<and> proba X = Inr P \<and> concat P \<noteq> []
                  \<and> confidence = Max (set (concat P)))
       | None \<Rightarrow>
           confidence = np_random_uniform 0.85 0.97 u
           \<and> 0.85 \<le> confidence \<and> confidence \<le> 0.97))
   \<and> (encode_fields encoders f = Inr (a, b, c)
      \<and> predict model [[a, b, c, hours f]] = Inr (y # ys)
      \<and> and_then (getitem encoders ''income'') (\<lambda>enc. decode enc y) = Inr l \<longrightarrow>
      (\<forall>proba P. predict_proba model = Some proba \<and> proba [[a, b, c, hours f]] = Inr P
           \<and> concat P \<noteq> [] \<longrightarrow>
         prediction_step model encoders f u
           = ([Features [[a, b, c, hours f]], PredictCall [[a, b, c, hours f]],
               ProbaCall [[a, b, c, hours f]]],
              Inr (l, Max (set (concat P)))))
      \<and> (predict_proba model = None \<longrightarrow>
         prediction_step model encoders f u
           = ([Features [[a, b, c, hours f]], PredictCall [[a, b, c, hours f]]],
              Inr (l, np_random_uniform 0.85 0.97 u))))"
proof (intro conjI impI allI)
  assume "prediction_step model encoders f u = (evs, Inr (label, confidence))
          \<and> 0 \<le> u \<and> u \<le> 1"
  then have step: "prediction_step model encoders f u = (evs, Inr (label, confidence))"
    and u: "0 \<le> u" "u \<le> 1"
    by simp_all
  from prediction_step_success [OF step] obtain X calls prediction
    where block: "model_block model X u = (calls, Inr (prediction, confidence))"
      and evs: "evs = Features X # calls"
    by blast
  show "case predict_proba model of
          Some proba \<Rightarrow>
            (\<exists>X P. features_built evs = [X] \<and> proba X = Inr P \<and> concat P \<noteq> []
                   \<and> confidence = Max (set (concat P)))
        | None \<Rightarrow>
            confidence = np_random_uniform 0.85 0.97 u
            \<and> 0.85 \<le> confidence \<and> confidence \<le> 0.97"
  proof (cases "predict_proba model")
    case None
    with model_block_success(2) [OF block]
    have "confidence = np_random_uniform 0.85 0.97 u" by simp
    with np_random_uniform_range [OF u] None show ?thesis by simp
  next
    case (Some proba)
    with model_block_success(3) [OF block]
    have calls: "calls = [PredictCall X, ProbaCall X]"
      and "and_then (proba X) np_max = Inr confidence" by simp_all
    then obtain P where P: "proba X = Inr P" and m: "np_max P = Inr confidence"
      by (auto simp: and_then_def split: sum.splits)
    from evs calls have "features_built evs = [X]" by simp
    with P np_max_Max [OF m] Some show ?thesis by auto
  qed
next
  fix proba P
  assume enc: "encode_fields encoders f = Inr (a, b, c)
      \<and> predict model [[a, b, c, hours f]] = Inr (y # ys)
      \<and> and_then (getitem encoders ''income'') (\<lambda>enc. decode enc y) = Inr l"
    and pr: "predict_proba model = Some proba \<and> proba [[a, b, c, hours f]] = Inr P
      \<and> concat P \<noteq> []"
  from pr obtain p ps where ps: "concat P = p # ps" by (cases "concat P") auto
  have "Max (set (p # ps)) = fold max ps p" by (rule Max.set_eq_fold)
  with ps have "np_max P = Inr (Max (set (concat P)))" by (simp add: np_max_def)
  with enc pr
  have "model_block model [[a, b, c, hours f]] u
          = ([PredictCall [[a, b, c, hours f]], ProbaCall [[a, b, c, hours f]]],
             Inr (y, Max (set (concat P))))"
    by (simp add: model_block_def and_then_def first_def)
  with enc
  show "prediction_step model encoders f u
          = ([Features [[a, b, c, hours f]], PredictCall [[a, b, c, hours f]],
              ProbaCall [[a, b, c, hours f]]],
             Inr (l, Max (set (concat P))))"
    by (simp add: prediction_step_def Let_def)
next
  assume enc: "encode_fields encoders f = Inr (a, b, c)
      \<and> predict model [[a, b, c, hours f]] = Inr (y # ys)
      \<and> and_then (getitem encoders ''income'') (\<lambda>enc. decode enc y) = Inr l"
    and pr: "predict_proba model = None"
  then have "model_block model [[a, b, c, hours f]] u
          = ([PredictCall [[a, b, c, hours f]]], Inr (y, np_random_uniform 0.85 0.97 u))"
    by (simp add: model_block_def and_then_def first_def)
  with enc
  show "prediction_step model encoders f u
          = ([Features [[a, b, c, hours f]], PredictCall [[a, b, c, hours f]]],
             Inr (l, np_random_uniform 0.85 0.97 u))"
    by (simp add: prediction_step_def Let_def)
qed

theorem confidence_source_witness:
  "prediction_step example_model example_encoders example_form (1 / 2)
     = ([Features [[0, 0, 1, 45]], PredictCall [[0, 0, 1, 45]], ProbaCall [[0, 0, 1, 45]]],
        Inr (''>50K'', Max (set (concat [[3 / 10, 7 / 10]]))))
   \<and> Max (set (concat [[3 / 10, 7 / 10 :: real]])) = 7 / 10
   \<and> (\<exists>X P. features_built
               [Features [[0, 0, 1, 45]], PredictCall [[0, 0, 1, 45]], ProbaCall [[0, 0, 1, 45]]]
             = [X]
           \<and> the (predict_proba example_model) X = Inr P \<and> concat P \<noteq> []
           \<and> (7 / 10 :: real) = Max (set (concat P)))
   \<and> prediction_step example_model_plain example_encoders example_form 0
     = ([Features [[0, 0, 1, 45]], PredictCall [[0, 0, 1, 45]]],
        Inr (''>50K'', np_random_uniform 0.85 0.97 0))
   \<and> np_random_uniform 0.85 0.97 0 = 0.85
   \<and> prediction_step example_model_plain example_encoders example_form 1
     = ([Features [[0, 0, 1, 45]], PredictCall [[0, 0, 1, 45]]],
        Inr (''>50K'', np_random_uniform 0.85 0.97 1))
   \<and> np_random_uniform 0.85 0.97 1 = 0.97"
proof -
  have enc: "encode_fields example_encoders example_form = Inr (0, 0, 1)"
    by (simp add: encode_fields_def encode_field_def getitem_def encode_def and_then_def
        first_def example_encoders_def example_form_def)
  have hours: "hours example_form = 45"
    by (simp add: example_form_def)
  have pred: "predict example_model [[0, 0, 1, 45]] = Inr [1]"
    "predict example_model_plain [[0, 0, 1, 45]] = Inr [1]"
    by (simp_all add: example_model_def example_model_plain_def example_predict_def)
  have lab: "and_then (getitem example_encoders ''income'') (\<lambda>enc. decode enc 1) = Inr ''>50K''"
    by (simp add: getitem_def decode_def and_then_def first_def example_encoders_def)
  have proba: "predict_proba example_model
      = Some (\<lambda>X. Inr (map (\<lambda>row. if 40 < last row then [0.3, 0.7] else [0.8, 0.2]) X))"
    "predict_proba example_model_plain = None"
    by (simp_all add: example_model_def example_model_plain_def)
  have with_proba: "prediction_step example_model example_encoders example_form (1 / 2)
     = ([Features [[0, 0, 1, 45]], PredictCall [[0, 0, 1, 45]], ProbaCall [[0, 0, 1, 45]]],
        Inr (''>50K'', Max (set (concat [[3 / 10, 7 / 10]]))))"
    using confidence_source
      [of example_model example_encoders example_form "1 / 2" _ _ _ 0 0 1 1 "[]" "''>50K''"]
      enc hours pred lab proba
    by simp
  have m: "Max (set (concat [[3 / 10, 7 / 10 :: real]])) = 7 / 10"
    by simp
  have maximum: "\<exists>X P. features_built
               [Features [[0, 0, 1, 45]], PredictCall [[0, 0, 1, 45]], ProbaCall [[0, 0, 1, 45]]]
             = [X]
           \<and> the (predict_proba example_model) X = Inr P \<and> concat P \<noteq> []
           \<and> (7 / 10 :: real) = Max (set (concat P))"
    using confidence_source
      [of example_model example_encoders example_form "1 / 2"
        "[Features [[0, 0, 1, 45]], PredictCall [[0, 0, 1, 45]], ProbaCall [[0, 0, 1, 45]]]"
        "''>50K''" "7 / 10"]
      with_proba m proba
    by simp
  have plain: "prediction_step example_model_plain example_encoders example_form u
     = ([Features [[0, 0, 1, 45]], PredictCall [[0, 0, 1, 45]]],
        Inr (''>50K'', np_random_uniform 0.85 0.97 u))" for u
    using confidence_source
      [of example_model_plain example_encoders example_form u _ _ _ 0 0 1 1 "[]" "''>50K''"]
      enc hours pred lab proba
    by simp
  have ends: "np_random_uniform 0.85 0.97 0 = 0.85" "np_random_uniform 0.85 0.97 1 = 0.97"
    by (simp_all add: np_random_uniform_def)
  from with_proba m maximum plain [of 0] plain [of 1] ends show ?thesis
    by simp
qed

text \<open>
  C6. For every submission whose prediction succeeds, the classifier is called on the
  one-row matrix (encoded education, encoded occupation, encoded country, weekly hours),
  in that order: it is the matrix built at line 133 and the argument of every call.
\<close>

theorem feature_vector_order:
  assumes step: "prediction_step model encoders f u = (evs, Inr (label, confidence))"
  shows "\<exists>edu_enc occ_enc nat_enc.
           encode_field encoders ''education'' (education f) = Inr edu_enc
         \<and> encode_field encoders ''occupation'' (occupation f) = Inr occ_enc
         \<and> encode_field encoders ''native-country'' (country f) = Inr nat_enc
         \<and> evs = Features [[edu_enc, occ_enc, nat_enc, hours f]]
                 # PredictCall [[edu_enc, occ_enc, nat_enc, hours f]]
                 # (case predict_proba model of
                      None \<Rightarrow> []
                    | Some proba \<Rightarrow> [ProbaCall [[edu_enc, occ_enc, nat_enc, hours f]]])"
proof -
  from prediction_step_success [OF step] obtain a b c calls prediction
    where enc: "encode_fields encoders f = Inr (a, b, c)"
      and block: "model_block model [[a, b, c, hours f]] u = (calls, Inr (prediction, confidence))"
      and evs: "evs = Features [[a, b, c, hours f]] # calls"
    by blast
  have "calls = PredictCall [[a, b, c, hours f]]
          # (case predict_proba model of
               None \<Rightarrow> []
             | Some proba \<Rightarrow> [ProbaCall [[a, b, c, hours f]]])"
    using model_block_success(2,3) [OF block] by (cases "predict_proba model") simp_all
  with enc evs show ?thesis
    unfolding encode_fields_Inr by blast
qed

theorem feature_vector_order_witness:
  "prediction_step example_model example_encoders example_form (1 / 2)
     = ([Features [[0, 0, 1, 45]], PredictCall [[0, 0, 1, 45]], ProbaCall [[0, 0, 1, 45]]],
        Inr (''>50K'', 7 / 10))
   \<and> (\<exists>edu_enc occ_enc nat_enc.
         encode_field example_encoders ''education'' ''Bachelors'' = Inr edu_enc
       \<and> encode_field example_encoders ''occupation'' ''Exec-managerial'' = Inr occ_enc
       \<and> encode_field example_encoders ''native-country'' ''United-States'' = Inr nat_enc
       \<and> [[0, 0, 1, 45]] = [[edu_enc, occ_enc, nat_enc, 45]])"
proof -
  have run: "prediction_step example_model example_encoders example_form (1 / 2)
     = ([Features [[0, 0, 1, 45]], PredictCall [[0, 0, 1, 45]], ProbaCall [[0, 0, 1, 45]]],
        Inr (''>50K'', 7 / 10))"
    by (rule example_run)
  from feature_vector_order [OF run] run show ?thesis
    by (simp add: example_form_def)
qed


section \<open>Properties of the right column\<close>

lemma right_column_closed:
  "\<not> (submitted f \<and> fname f \<noteq> [] \<and> lname f \<noteq> []) \<Longrightarrow>
     right_column model encoders f u = ([Placeholder], Completed)"
  by (auto simp: right_column_def)

lemma model_block_events:
  "e \<in> set (fst (model_block model X u)) \<Longrightarrow> e = PredictCall X \<or> e = ProbaCall X"
  by (auto simp: model_block_def split: sum.splits option.splits)

lemma prediction_step_events:
  assumes "e \<in> set (fst (prediction_step model encoders f u))"
  shows "\<exists>a b c. e = Features [[a, b, c, hours f]] \<or> e = PredictCall [[a, b, c, hours f]]
               \<or> e = ProbaCall [[a, b, c, hours f]]"
proof (cases "encode_fields encoders f")
  case (Inl err)
  with assms show ?thesis by (simp add: prediction_step_def)
next
  case (Inr t)
  obtain a b c where t: "t = (a, b, c)" by (cases t)
  let ?X = "[[a, b, c, hours f]]"
  obtain calls r where m: "model_block model ?X u = (calls, r)"
    by (cases "model_block model ?X u")
  from Inr t m have "fst (prediction_step model encoders f u) = Features ?X # calls"
    by (cases r) (auto simp: prediction_step_def Let_def split: sum.splits)
  with assms have "e = Features ?X \<or> e \<in> set calls" by simp
  moreover have "e \<in> set calls \<Longrightarrow> e = PredictCall ?X \<or> e = ProbaCall ?X"
    using model_block_events [of e model ?X u] m by simp
  ultimately show ?thesis by blast
qed

lemma right_column_open:
  assumes "submitted f" and "fname f \<noteq> []" and "lname f \<noteq> []"
  shows "right_column model encoders f u =
     (case prediction_step model encoders f u of
        (evs, Inl (EncodingError e)) \<Rightarrow> (evs @ [StError ''Encoding error'' e], Stopped)
      | (evs, Inl (PredictionError e)) \<Rightarrow> (evs @ [StError ''Prediction error'' e], Stopped)
      | (evs, Inl (Uncaught e)) \<Rightarrow> (evs, Raised e)
      | (evs, Inr (label, confidence)) \<Rightarrow>
          (evs @ [Summary label, Gauge (confidence * 100)], Completed))"
  using assms by (simp add: right_column_def)

lemma right_column_features:
  assumes "Features X \<in> set (fst (right_column model encoders f u))"
  shows "\<exists>a b c. X = [[a, b, c, hours f]]"
proof (cases "submitted f \<and> fname f \<noteq> [] \<and> lname f \<noteq> []")
  case False
  with assms show ?thesis by (simp add: right_column_closed)
next
  case True
  obtain evs r where p: "prediction_step model encoders f u = (evs, r)"
    by (cases "prediction_step model encoders f u")
  from True p assms have "Features X \<in> set evs"
    by (auto simp: right_column_open split: sum.splits failure.splits)
  with prediction_step_events [of "Features X" model encoders f u] p show ?thesis
    by auto
qed

lemma features_built_append:
  "features_built (xs @ ys) = features_built xs @ features_built ys"
  by (induction xs rule: features_built.induct) simp_all

lemma labels_shown_append:
  "labels_shown (xs @ ys) = labels_shown xs @ labels_shown ys"
  by (induction xs rule: labels_shown.induct) simp_all

lemma labels_shown_none:
  "(\<And>e. e \<in> set evs \<Longrightarrow> \<forall>l. e \<noteq> Summary l) \<Longrightarrow> labels_shown evs = []"
  by (induction evs rule: labels_shown.induct) auto

lemma prediction_step_no_labels:
  "labels_shown (fst (prediction_step model encoders f u)) = []"
proof (rule labels_shown_none)
  fix e
  assume "e \<in> set (fst (prediction_step model encoders f u))"
  from prediction_step_events [OF this] show "\<forall>l. e \<noteq> Summary l" by auto
qed

lemma right_column_features_built:
  "features_built (fst (right_column model encoders f u)) =
     (if submitted f \<and> fname f \<noteq> [] \<and> lname f \<noteq> []
      then features_built (fst (prediction_step model encoders f u)) else [])"
proof (cases "submitted f \<and> fname f \<noteq> [] \<and> lname f \<noteq> []")
  case False
  from right_column_closed [OF False, of model encoders u] False show ?thesis by auto
next
  case True
  obtain evs r where p: "prediction_step model encoders f u = (evs, r)"
    by (cases "prediction_step model encoders f u")
  with True show ?thesis
    by (auto simp: right_column_open features_built_append split: sum.splits failure.splits)
qed

lemma right_column_labels_shown:
  "labels_shown (fst (right_column model encoders f u)) =
     (if submitted f \<and> fname f \<noteq> [] \<and> lname f \<noteq> []
      then (case map_sum id fst (snd (prediction_step model encoders f u)) of
              Inl e \<Rightarrow> [] | Inr label \<Rightarrow> [label])
      else [])"
proof (cases "submitted f \<and> fname f \<noteq> [] \<and> lname f \<noteq> []")
  case False
  from right_column_closed [OF False, of model encoders u] False show ?thesis by auto
next
  case True
  obtain evs r where p: "prediction_step model encoders f u = (evs, r)"
    by (cases "prediction_step model encoders f u")
  with prediction_step_no_labels [of model encoders f u] have "labels_shown evs = []"
    by simp
  with True p show ?thesis
    by (auto simp: right_column_open labels_shown_append split: sum.splits failure.splits)
qed

lemma encode_field_present:
  "encoders key = Some enc \<Longrightarrow> encode_field encoders key v = encode enc v"
  by (simp add: encode_field_def getitem_def and_then_def)

lemma encode_total: "encode enc v = Inl ValueError \<or> (\<exists>c. encode enc v = Inr c)"
  by (cases "index_of (classes enc) v") (simp_all add: encode_def and_then_def first_def)

lemma encode_fields_unknown:
  assumes "encoders ''education'' = Some e1" and "encoders ''occupation'' = Some e2"
    and "encoders ''native-country'' = Some e3"
    and "education f \<notin> set (classes e1) \<or> occupation f \<notin> set (classes e2)
         \<or> country f \<notin> set (classes e3)"
  shows "encode_fields encoders f = Inl ValueError"
proof -
  have fields: "encode_field encoders ''education'' (education f) = encode e1 (education f)"
    "encode_field encoders ''occupation'' (occupation f) = encode e2 (occupation f)"
    "encode_field encoders ''native-country'' (country f) = encode e3 (country f)"
    using assms(1-3) by (simp_all add: encode_field_present)
  from assms(4) encode_unknown
  have "encode e1 (education f) = Inl ValueError \<or> encode e2 (occupation f) = Inl ValueError
        \<or> encode e3 (country f) = Inl ValueError"
    by blast
  with encode_total [of e1 "education f"] encode_total [of e2 "occupation f"]
    encode_total [of e3 "country f"]
  show ?thesis
    unfolding encode_fields_def fields by (auto simp: and_then_def)
qed

lemma right_column_cong:
  assumes "(submitted f1 \<and> fname f1 \<noteq> [] \<and> lname f1 \<noteq> [])
         = (submitted f2 \<and> fname f2 \<noteq> [] \<and> lname f2 \<noteq> [])"
    and "prediction_step model encoders f1 u1 = prediction_step model encoders f2 u2"
  shows "right_column model encoders f1 u1 = right_column model encoders f2 u2"
proof (cases "submitted f1 \<and> fname f1 \<noteq> [] \<and> lname f1 \<noteq> []")
  case True
  with assms(1) have "submitted f2 \<and> fname f2 \<noteq> [] \<and> lname f2 \<noteq> []" by simp
  with True assms(2) show ?thesis by (simp add: right_column_open)
next
  case False
  with assms(1) have "\<not> (submitted f2 \<and> fname f2 \<noteq> [] \<and> lname f2 \<noteq> [])" by simp
  from right_column_closed [OF False] right_column_closed [OF this] show ?thesis by simp
qed

lemma example_right_column:
  "right_column example_model example_encoders example_form (1 / 2)
     = ([Features [[0, 0, 1, 45]], PredictCall [[0, 0, 1, 45]], ProbaCall [[0, 0, 1, 45]],
         Summary ''>50K'', Gauge 70], Completed)"
  by (simp add: right_column_def example_run) (simp add: example_form_def)

lemma example_default_hours:
  "form_and_results example_model example_encoders example_form None (1 / 2)
     = ([Features [[0, 0, 1, 40]], PredictCall [[0, 0, 1, 40]], ProbaCall [[0, 0, 1, 40]],
         Summary ''<=50K'', Gauge 80], Completed)"
  by (simp add: form_and_results_def slider_def right_column_def prediction_step_def
      encode_fields_def encode_field_def getitem_def encode_def decode_def and_then_def
      first_def model_block_def np_max_def Let_def example_model_def example_predict_def
      example_encoders_def example_form_def)

text \<open>
  C5. A submission (submitted, both names non-empty) in which a categorical value is
  outside its encoder's vocabulary: the encode step raises (the exception is
  \<open>ValueError\<close>), the prediction step ends with \<open>EncodingError\<close> and without any event, so
  no feature matrix is built and the classifier is not called; the right column shows
  the encoding error, stops, and renders no result panel.
\<close>

theorem unknown_value_aborts:
  assumes "submitted f" and "fname f \<noteq> []" and "lname f \<noteq> []"
    and "encoders ''education'' = Some e1" and "encoders ''occupation'' = Some e2"
    and "encoders ''native-country'' = Some e3"
    and "education f \<notin> set (classes e1) \<or> occupation f \<notin> set (classes e2)
         \<or> country f \<notin> set (classes e3)"
  shows "prediction_step model encoders f u = ([], Inl (EncodingError ValueError))
       \<and> right_column model encoders f u = ([StError ''Encoding error'' ValueError], Stopped)
       \<and> \<not> (\<exists>e \<in> set (fst (right_column model encoders f u)). is_pipeline_event e)"
proof -
  from encode_fields_unknown [OF assms(4-7)]
  have step: "prediction_step model encoders f u = ([], Inl (EncodingError ValueError))"
    by (simp add: prediction_step_def)
  with assms(1-3)
  have "right_column model encoders f u = ([StError ''Encoding error'' ValueError], Stopped)"
    by (simp add: right_column_open)
  with step show ?thesis by simp
qed

theorem unknown_value_aborts_witness:
  "right_column example_model example_encoders (example_form\<lparr>education := ''PhD''\<rparr>) (1 / 2)
     = ([StError ''Encoding error'' ValueError], Stopped)
   \<and> prediction_step example_model example_encoders (example_form\<lparr>education := ''PhD''\<rparr>) (1 / 2)
     = ([], Inl (EncodingError ValueError))"
  using unknown_value_aborts
    [of "example_form\<lparr>education := ''PhD''\<rparr>" example_encoders
      "\<lparr>classes = [''Bachelors'', ''HS-grad'', ''Masters'']\<rparr>"
      "\<lparr>classes = [''Exec-managerial'', ''Sales'']\<rparr>"
      "\<lparr>classes = [''India'', ''United-States'']\<rparr>" example_model "1 / 2"]
  by (simp add: example_form_def example_encoders_def)

text \<open>
  C7. When the form was not submitted, or the first name or the last name is empty, the
  right column consists of the placeholder panel alone: nothing is encoded, the
  classifier is not called, no result is rendered. A result panel (summary or gauge)
  appears only in a run where the form was submitted and both names are non-empty.
\<close>

theorem names_guard_prediction:
  "(\<not> submitted f \<or> fname f = [] \<or> lname f = [] \<longrightarrow>
      right_column model encoders f u = ([Placeholder], Completed))
   \<and> ((\<exists>e \<in> set (fst (right_column model encoders f u)). is_result_panel e) \<longrightarrow>
      submitted f \<and> fname f \<noteq> [] \<and> lname f \<noteq> [])"
proof (cases "submitted f \<and> fname f \<noteq> [] \<and> lname f \<noteq> []")
  case True
  then show ?thesis by simp
next
  case False
  then have "right_column model encoders f u = ([Placeholder], Completed)"
    by (rule right_column_closed)
  with False show ?thesis by auto
qed

theorem names_guard_prediction_witness:
  "right_column example_model example_encoders (example_form\<lparr>lname := []\<rparr>) (1 / 2)
     = ([Placeholder], Completed)
   \<and> (\<exists>e \<in> set (fst (right_column example_model example_encoders example_form (1 / 2))).
         is_result_panel e)
   \<and> submitted example_form \<and> fname example_form \<noteq> [] \<and> lname example_form \<noteq> []"
  using names_guard_prediction
      [of "example_form\<lparr>lname := []\<rparr>" example_model example_encoders "1 / 2"]
    names_guard_prediction [of example_form example_model example_encoders "1 / 2"]
  by (simp add: example_right_column)

text \<open>
  C8. From the hours slider on: a chosen value below 10 or above 80 is rejected by the
  widget, and the run ends there without any event; every feature matrix that is built
  is one row of four entries whose last entry, the weekly hours, lies in \<open>[10, 80]\<close>.
\<close>

theorem hours_within_slider_range:
  "(chosen_hours = Some v \<and> (v < 10 \<or> 80 < v) \<longrightarrow>
      form_and_results model encoders f chosen_hours u = ([], Raised ValueError))
   \<and> (Features X \<in> set (fst (form_and_results model encoders f chosen_hours u)) \<longrightarrow>
      (\<exists>a b c h. X = [[a, b, c, h]] \<and> 10 \<le> h \<and> h \<le> 80))"
proof (cases "slider 10 80 40 chosen_hours")
  case (Inl e)
  then show ?thesis
    by (auto simp: form_and_results_def slider_def split: option.splits if_splits)
next
  case (Inr h)
  then have range: "10 \<le> h \<and> h \<le> 80" and ok: "\<not> (chosen_hours = Some v \<and> (v < 10 \<or> 80 < v))"
    by (auto simp: slider_def split: option.splits if_splits)
  have run: "form_and_results model encoders f chosen_hours u
        = right_column model encoders (f\<lparr>hours := h\<rparr>) u"
    using Inr by (simp add: form_and_results_def)
  have "\<exists>a b c h. X = [[a, b, c, h]] \<and> 10 \<le> h \<and> h \<le> 80"
    if "Features X \<in> set (fst (form_and_results model encoders f chosen_hours u))"
  proof -
    from that run right_column_features [of X model encoders "f\<lparr>hours := h\<rparr>" u]
    obtain a b c where "X = [[a, b, c, h]]" by auto
    with range show ?thesis by blast
  qed
  with ok show ?thesis by blast
qed

theorem hours_within_slider_range_witness:
  "form_and_results example_model example_encoders example_form (Some 90) (1 / 2)
     = ([], Raised ValueError)
   \<and> form_and_results example_model example_encoders example_form (Some 9) (1 / 2)
     = ([], Raised ValueError)
   \<and> Features [[0, 0, 1, 40]]
       \<in> set (fst (form_and_results example_model example_encoders example_form None (1 / 2)))
   \<and> (\<exists>a b c h. [[0, 0, 1, 40]] = [[a, b, c, h]] \<and> (10::int) \<le> h \<and> h \<le> 80)"
  using hours_within_slider_range
      [of "Some 90" 90 example_model example_encoders example_form "1 / 2"]
    hours_within_slider_range
      [of "Some 9" 9 example_model example_encoders example_form "1 / 2"]
    hours_within_slider_range
      [of None 0 example_model example_encoders example_form "1 / 2" "[[0, 0, 1, 40]]"]
  by (simp add: example_default_hours)

text \<open>
  C10, as the script has it. Two runs of the right column whose form values agree on
  education, occupation, country and weekly hours, and on whether the form was submitted
  with both names non-empty, build the same feature matrices and show the same label,
  whatever the generator yields; with \<^verbatim>\<open>predict_proba\<close> the two runs are equal, gauge
  included. E-mail, experience and age play no part; the names only through being empty
  or not.
\<close>

theorem unused_fields_do_not_influence:
  assumes "education f1 = education f2" and "occupation f1 = occupation f2"
    and "country f1 = country f2" and "hours f1 = hours f2"
    and guard: "(submitted f1 \<and> fname f1 \<noteq> [] \<and> lname f1 \<noteq> [])
             = (submitted f2 \<and> fname f2 \<noteq> [] \<and> lname f2 \<noteq> [])"
  shows "features_built (fst (right_column model encoders f1 u1))
           = features_built (fst (right_column model encoders f2 u2))
       \<and> labels_shown (fst (right_column model encoders f1 u1))
           = labels_shown (fst (right_column model encoders f2 u2))
       \<and> (predict_proba model \<noteq> None \<longrightarrow>
            right_column model encoders f1 u1 = right_column model encoders f2 u2)"
proof -
  have fields: "prediction_step model encoders f1 u = prediction_step model encoders f2 u"
    for u
    using assms(1-4) by (rule prediction_step_fields)
  from prediction_step_rng_label [of model encoders f2 u1 u2] fields [of u1]
  have same: "fst (prediction_step model encoders f1 u1)
                = fst (prediction_step model encoders f2 u2)"
    "map_sum id fst (snd (prediction_step model encoders f1 u1))
       = map_sum id fst (snd (prediction_step model encoders f2 u2))"
    by simp_all
  have "right_column model encoders f1 u1 = right_column model encoders f2 u2"
    if "predict_proba model \<noteq> None"
  proof -
    from prediction_step_rng_proba [OF that, of encoders f2 u1 u2] fields [of u1]
    have "prediction_step model encoders f1 u1 = prediction_step model encoders f2 u2"
      by simp
    with guard show ?thesis by (rule right_column_cong)
  qed
  with same guard show ?thesis
    by (simp add: right_column_features_built right_column_labels_shown)
qed

theorem unused_fields_do_not_influence_witness:
  "right_column example_model example_encoders
     (example_form\<lparr>fname := ''Grace'', lname := ''Hopper'', email := ''g@h'',
        experience := 30, age := 60\<rparr>) 0
   = right_column example_model example_encoders example_form (1 / 2)"
  using unused_fields_do_not_influence
    [of "example_form\<lparr>fname := ''Grace'', lname := ''Hopper'', email := ''g@h'',
           experience := 30, age := 60\<rparr>" example_form example_model example_encoders
        0 "1 / 2"]
  by (simp add: example_form_def example_model_def)

text \<open>
  C10, as stated, fails: two submissions that agree on education, occupation, country
  and weekly hours and differ in the first name only. With the name given, a feature
  matrix is built and a label is shown; with the name empty, neither.
\<close>

theorem names_influence_counterexample:
  "education (example_form\<lparr>fname := []\<rparr>) = education example_form
   \<and> occupation (example_form\<lparr>fname := []\<rparr>) = occupation example_form
   \<and> country (example_form\<lparr>fname := []\<rparr>) = country example_form
   \<and> hours (example_form\<lparr>fname := []\<rparr>) = hours example_form
   \<and> features_built (fst (right_column example_model example_encoders example_form (1 / 2)))
       = [[[0, 0, 1, 45]]]
   \<and> features_built
       (fst (right_column example_model example_encoders (example_form\<lparr>fname := []\<rparr>) (1 / 2)))
       = []
   \<and> labels_shown (fst (right_column example_model example_encoders example_form (1 / 2)))
       = [''>50K'']
   \<and> labels_shown
       (fst (right_column example_model example_encoders (example_form\<lparr>fname := []\<rparr>) (1 / 2)))
       = []"
  by (simp add: example_right_column right_column_closed)


section \<open>Properties of fetching and loading\<close>












end
